theory Spec2Isabelle
  imports Main "HOL-Library.Sublist"
begin

section \<open>Go standard-library string and path functions used by the checks\<close>

text \<open>
  Go strings are byte sequences; \<^typ>\<open>string\<close> is a list of 8-bit characters, so
  lengths and indices below count bytes exactly as Go's \<^verbatim>\<open>len\<close> and slicing do.
\<close>

text \<open>\<^verbatim>\<open>strings.HasPrefix(s, prefix)\<close>:
  \<^verbatim>\<open>len(s) >= len(prefix) && s[:len(prefix)] == prefix\<close>.\<close>

definition HasPrefix :: "string \<Rightarrow> string \<Rightarrow> bool" where
  "HasPrefix s p = (length p \<le> length s \<and> take (length p) s = p)"

text \<open>\<^verbatim>\<open>strings.HasSuffix(s, suffix)\<close>:
  \<^verbatim>\<open>len(s) >= len(suffix) && s[len(s)-len(suffix):] == suffix\<close>.\<close>

definition HasSuffix :: "string \<Rightarrow> string \<Rightarrow> bool" where
  "HasSuffix s x = (length x \<le> length s \<and> drop (length s - length x) s = x)"

text \<open>\<^verbatim>\<open>strings.Index(s, substr)\<close>: the index of the first instance of
  \<^verbatim>\<open>substr\<close> in \<^verbatim>\<open>s\<close>, or \<^verbatim>\<open>-1\<close> when there is none.\<close>

fun Index :: "string \<Rightarrow> string \<Rightarrow> int" where
  "Index [] sub = (if sub = [] then 0 else - 1)"
| "Index (c # cs) sub =
     (if HasPrefix (c # cs) sub then 0
      else (let i = Index cs sub in if i < 0 then - 1 else i + 1))"

text \<open>\<^verbatim>\<open>strings.Join(elems, sep)\<close>.\<close>

fun Join_strings :: "string list \<Rightarrow> string \<Rightarrow> string" where
  "Join_strings [] sep = []"
| "Join_strings [e] sep = e"
| "Join_strings (e # es) sep = e @ sep @ Join_strings es sep"

text \<open>
  \<^verbatim>\<open>strings.Split(s, sep)\<close> for a single-byte separator, which is how the
  program calls it (\<^verbatim>\<open>","\<close>, \<^verbatim>\<open>" "\<close>, and \<^verbatim>\<open>"/"\<close> inside the
  path cleaner below): the pieces between the separators, always at least one piece.
  \<open>Split_from cur s c\<close> carries the piece being read.
\<close>

fun Split_from :: "string \<Rightarrow> string \<Rightarrow> char \<Rightarrow> string list" where
  "Split_from cur [] c = [cur]"
| "Split_from cur (x # xs) c =
     (if x = c then cur # Split_from [] xs c else Split_from (cur @ [x]) xs c)"

definition Split :: "string \<Rightarrow> char \<Rightarrow> string list" where
  "Split s c = Split_from [] s c"

text \<open>
  \<^verbatim>\<open>filepath.Clean\<close> on a Unix path: runs of separators collapse, \<^verbatim>\<open>.\<close>
  elements disappear, an inner \<^verbatim>\<open>..\<close> removes the element before it, a
  \<^verbatim>\<open>..\<close> at the start of a rooted path disappears, and the empty result is
  \<^verbatim>\<open>.\<close>. \<open>Clean_elems\<close> is the loop over the path elements with the output
  built so far.
\<close>

fun Clean_elems :: "bool \<Rightarrow> string list \<Rightarrow> string list \<Rightarrow> string list" where
  "Clean_elems rooted out [] = out"
| "Clean_elems rooted out (e # es) =
     (if e = [] \<or> e = ''.'' then Clean_elems rooted out es
      else if e = ''..'' then
        (if out \<noteq> [] \<and> last out \<noteq> ''..'' then Clean_elems rooted (butlast out) es
         else if rooted then Clean_elems rooted out es
         else Clean_elems rooted (out @ [e]) es)
      else Clean_elems rooted (out @ [e]) es)"

definition Clean :: "string \<Rightarrow> string" where
  "Clean p =
     (let rooted = HasPrefix p ''/'';
          body = Join_strings (Clean_elems rooted [] (Split p CHR ''/'')) ''/''
      in if rooted then ''/'' @ body
         else if body = [] then ''.'' else body)"

text \<open>
  \<^verbatim>\<open>filepath.Join(a, b)\<close>: empty elements are ignored, the rest is joined with
  the separator and cleaned; the result is empty when both elements are.
\<close>

definition filepath_Join :: "string \<Rightarrow> string \<Rightarrow> string" where
  "filepath_Join a b =
     (if a \<noteq> [] then Clean (a @ ''/'' @ b)
      else if b \<noteq> [] then Clean b
      else [])"

section \<open>The asset path resolver (\<^verbatim>\<open>CheckAssets\<close>, lines 50--79)\<close>

text \<open>
  The candidate filesystem path of one reference. A reference that starts with
  \<^verbatim>\<open>/\<close> is cut at the first \<^verbatim>\<open>/images/\<close>, else at the first
  \<^verbatim>\<open>/_astro/\<close>, and concatenated onto the site directory as a string; the two
  relative shapes go through \<^verbatim>\<open>filepath.Join\<close>.
\<close>

definition assetPath :: "string \<Rightarrow> string \<Rightarrow> string" where
  "assetPath distDir asset =
     (if HasPrefix asset ''/'' then
        (let relPath =
           (if 0 \<le> Index asset ''/images/'' then drop (nat (Index asset ''/images/'')) asset
            else if 0 \<le> Index asset ''/_astro/'' then drop (nat (Index asset ''/_astro/'')) asset
            else if HasPrefix asset ''/favicon'' then asset
            else asset)
         in distDir @ relPath)
      else if HasPrefix asset ''./'' then filepath_Join distDir (drop 1 asset)
      else filepath_Join distDir asset)"


section \<open>More of the standard library: white space and decimal numbers\<close>

text \<open>
  \<^verbatim>\<open>strings.TrimSpace\<close> removes leading and trailing white space as Unicode
  defines it. \<open>space_runes\<close> lists the UTF-8 encodings of the white-space code points:
  the six ASCII ones, U+0085, U+00A0, U+1680, U+2000 to U+200A, U+2028, U+2029, U+202F,
  U+205F and U+3000.
\<close>

definition space_runes :: "string list" where
  "space_runes =
     [[CHR 0x09], [CHR 0x0A], [CHR 0x0B], [CHR 0x0C], [CHR 0x0D], [CHR 0x20],
      [CHR 0xC2, CHR 0x85], [CHR 0xC2, CHR 0xA0],
      [CHR 0xE1, CHR 0x9A, CHR 0x80],
      [CHR 0xE2, CHR 0x80, CHR 0x80], [CHR 0xE2, CHR 0x80, CHR 0x81],
      [CHR 0xE2, CHR 0x80, CHR 0x82], [CHR 0xE2, CHR 0x80, CHR 0x83],
      [CHR 0xE2, CHR 0x80, CHR 0x84], [CHR 0xE2, CHR 0x80, CHR 0x85],
      [CHR 0xE2, CHR 0x80, CHR 0x86], [CHR 0xE2, CHR 0x80, CHR 0x87],
      [CHR 0xE2, CHR 0x80, CHR 0x88], [CHR 0xE2, CHR 0x80, CHR 0x89],
      [CHR 0xE2, CHR 0x80, CHR 0x8A],
      [CHR 0xE2, CHR 0x80, CHR 0xA8], [CHR 0xE2, CHR 0x80, CHR 0xA9],
      [CHR 0xE2, CHR 0x80, CHR 0xAF], [CHR 0xE2, CHR 0x81, CHR 0x9F],
      [CHR 0xE3, CHR 0x80, CHR 0x80]]"

text \<open>The number of bytes of the white-space rune \<open>s\<close> starts with (ends with); 0 for none.\<close>

definition leading_space :: "string \<Rightarrow> nat" where
  "leading_space s = (case find (HasPrefix s) space_runes of None \<Rightarrow> 0 | Some e \<Rightarrow> length e)"

definition trailing_space :: "string \<Rightarrow> nat" where
  "trailing_space s = (case find (HasSuffix s) space_runes of None \<Rightarrow> 0 | Some e \<Rightarrow> length e)"

function TrimLeft :: "string \<Rightarrow> string" where
  "TrimLeft s =
     (if leading_space s = 0 \<or> length s < leading_space s then s
      else TrimLeft (drop (leading_space s) s))"
  by pat_completeness auto
termination
  by (relation "measure length") auto

declare TrimLeft.simps [simp del]

function TrimRight :: "string \<Rightarrow> string" where
  "TrimRight s =
     (if trailing_space s = 0 \<or> length s < trailing_space s then s
      else TrimRight (take (length s - trailing_space s) s))"
  by pat_completeness auto
termination
  by (relation "measure length") auto

declare TrimRight.simps [simp del]

definition TrimSpace :: "string \<Rightarrow> string" where
  "TrimSpace s = TrimRight (TrimLeft s)"

text \<open>The \<^verbatim>\<open>%d\<close> verb of \<^verbatim>\<open>fmt\<close>: a Go \<^verbatim>\<open>int\<close> in decimal.\<close>

function decimal :: "nat \<Rightarrow> string" where
  "decimal n = (if n < 10 then [''0123456789'' ! n] else decimal (n div 10) @ [''0123456789'' ! (n mod 10)])"
  by pat_completeness auto
termination
  by (relation "measure id") auto

declare decimal.simps [simp del]

definition itoa :: "int \<Rightarrow> string" where
  "itoa i = (if i < 0 then ''-'' @ decimal (nat (- i)) else decimal (nat i))"

text \<open>
  \<^verbatim>\<open>strconv.Atoi\<close> with a 64-bit \<^verbatim>\<open>int\<close>: an optional sign and decimal
  digits; \<open>None\<close> is the error return (a syntax error, or a value outside the range of
  \<^verbatim>\<open>int\<close>).
\<close>

definition is_digit :: "char \<Rightarrow> bool" where
  "is_digit c = (c \<in> set ''0123456789'')"

definition digit_value :: "char \<Rightarrow> nat" where
  "digit_value c = of_char c - (48::nat)"

fun digits_value :: "nat \<Rightarrow> string \<Rightarrow> nat" where
  "digits_value acc [] = acc"
| "digits_value acc (c # cs) = digits_value (acc * 10 + digit_value c) cs"

definition parse_digits :: "string \<Rightarrow> nat option" where
  "parse_digits s = (if s \<noteq> [] \<and> list_all is_digit s then Some (digits_value 0 s) else None)"

definition Atoi :: "string \<Rightarrow> int option" where
  "Atoi s =
     (case s of
        [] \<Rightarrow> None
      | c # cs \<Rightarrow>
          if c = CHR ''-'' then
            (case parse_digits cs of
               None \<Rightarrow> None
             | Some v \<Rightarrow> if int v \<le> 2 ^ 63 then Some (- int v) else None)
          else
            (case parse_digits (if c = CHR ''+'' then cs else s) of
               None \<Rightarrow> None
             | Some v \<Rightarrow> if int v \<le> 2 ^ 63 - 1 then Some (int v) else None))"


section \<open>The report (\<^verbatim>\<open>internal/report\<close>)\<close>

text \<open>
  Every result struct has a \<^verbatim>\<open>Status\<close> and a \<^verbatim>\<open>Details\<close> string; they
  are the common root record here and each result type extends it with its own fields, so
  that \<open>Status\<close> and \<open>Details\<close> read any of the five. The status stays a string, as in
  the source: \<^verbatim>\<open>"PASS"\<close>, \<^verbatim>\<open>"FAIL"\<close> or \<^verbatim>\<open>"SKIP"\<close>.
\<close>

record CheckResult =
  Status :: string
  Details :: string

record AssetsResult = CheckResult +
  Total :: int
  Missing :: "string list"

record BuildResult = CheckResult +
  Pages :: int

record Thresholds =
  T_Performance :: int
  T_Accessibility :: int
  T_SEO :: int

record LighthouseResult = CheckResult +
  Performance :: int
  Accessibility :: int
  SEO :: int
  Thresholds :: Thresholds

record ScreenshotsResult = CheckResult +
  Desktop :: string
  Mobile :: string

record VisionResult = CheckResult +
  Score :: int
  Threshold :: int
  Analysis :: string

record ReportChecks =
  Assets :: AssetsResult
  Build :: BuildResult
  Lighthouse :: LighthouseResult
  Screenshots :: ScreenshotsResult
  Vision :: VisionResult

record Report =
  Timestamp :: string
  Directory :: string
  Overall :: string
  Checks :: ReportChecks

text \<open>\<^verbatim>\<open>NewReport\<close>: every check defaults to FAIL, the vision check to SKIP; the
  fields the source leaves out hold Go's zero values.\<close>

definition NewReport :: "string \<Rightarrow> Report" where
  "NewReport d =
     \<lparr>Timestamp = [], Directory = d, Overall = ''FAIL'',
      Checks =
        \<lparr>Assets = \<lparr>Status = ''FAIL'', Details = [], Total = 0, Missing = []\<rparr>,
         Build = \<lparr>Status = ''FAIL'', Details = [], Pages = 0\<rparr>,
         Lighthouse =
           \<lparr>Status = ''FAIL'', Details = [], Performance = 0, Accessibility = 0, SEO = 0,
            Thresholds = \<lparr>T_Performance = 0, T_Accessibility = 0, T_SEO = 0\<rparr>\<rparr>,
         Screenshots = \<lparr>Status = ''FAIL'', Details = [], Desktop = [], Mobile = []\<rparr>,
         Vision = \<lparr>Status = ''SKIP'', Details = [], Score = 0, Threshold = 0, Analysis = []\<rparr>\<rparr>\<rparr>"

section \<open>Parsed HTML documents and the reference extractor\<close>

text \<open>The node tree of \<^verbatim>\<open>golang.org/x/net/html\<close>: type, data (the tag name of an
  element), attributes and children in document order.\<close>

datatype NodeType =
  ErrorNode | TextNode | DocumentNode | ElementNode | CommentNode | DoctypeNode | RawNode

record Attribute =
  Namespace :: string
  Key :: string
  Val :: string

datatype Node = Node (Type: NodeType) (Data: string) (Attr: "Attribute list") (Children: "Node list")

text \<open>The attribute loops of \<^verbatim>\<open>extractAssets\<close>, one per tag; \<open>assets\<close> is the
  slice the closure appends to.\<close>

fun img_attrs :: "Attribute list \<Rightarrow> string list \<Rightarrow> string list" where
  "img_attrs [] assets = assets"
| "img_attrs (attr # rest) assets =
     img_attrs rest
       (if Key attr = ''src'' \<and> Val attr \<noteq> [] \<and> \<not> HasPrefix (Val attr) ''data:''
        then assets @ [Val attr] else assets)"

text \<open>The inner loop of the \<^verbatim>\<open>link\<close> case: whether some attribute is a
  \<^verbatim>\<open>rel\<close> with one of the three values (the loop appends once and breaks).\<close>

fun link_rel :: "Attribute list \<Rightarrow> bool" where
  "link_rel [] = False"
| "link_rel (a # rest) =
     (if Key a = ''rel'' \<and> (Val a = ''stylesheet'' \<or> Val a = ''icon'' \<or> Val a = ''shortcut'')
      then True else link_rel rest)"

fun link_attrs :: "Attribute list \<Rightarrow> Attribute list \<Rightarrow> string list \<Rightarrow> string list" where
  "link_attrs all [] assets = assets"
| "link_attrs all (attr # rest) assets =
     link_attrs all rest
       (if Key attr = ''href'' \<and> Val attr \<noteq> [] then
          (if link_rel all then assets @ [Val attr] else assets)
        else assets)"

fun script_attrs :: "Attribute list \<Rightarrow> string list \<Rightarrow> string list" where
  "script_attrs [] assets = assets"
| "script_attrs (attr # rest) assets =
     script_attrs rest
       (if Key attr = ''src'' \<and> Val attr \<noteq> [] then assets @ [Val attr] else assets)"

text \<open>The loop over the comma-separated parts of one \<^verbatim>\<open>srcset\<close> value:
  \<^verbatim>\<open>src := strings.TrimSpace(strings.Split(part, " ")[0])\<close>. \<open>Split\<close> never
  returns the empty list, so the index is in range.\<close>

fun srcset_parts :: "string list \<Rightarrow> string list \<Rightarrow> string list" where
  "srcset_parts [] assets = assets"
| "srcset_parts (part # rest) assets =
     (let src = TrimSpace (case Split part CHR '' '' of [] \<Rightarrow> [] | x # _ \<Rightarrow> x)
      in srcset_parts rest (if src \<noteq> [] then assets @ [src] else assets))"

fun source_attrs :: "Attribute list \<Rightarrow> string list \<Rightarrow> string list" where
  "source_attrs [] assets = assets"
| "source_attrs (attr # rest) assets =
     source_attrs rest
       (if Key attr = ''srcset'' \<and> Val attr \<noteq> []
        then srcset_parts (Split (Val attr) CHR '','') assets else assets)"

text \<open>What one node adds: the \<^verbatim>\<open>switch n.Data\<close> of the closure
  \<^verbatim>\<open>extract\<close>, taken only for an element node.\<close>

definition extract_switch :: "NodeType \<Rightarrow> string \<Rightarrow> Attribute list \<Rightarrow> string list \<Rightarrow> string list" where
  "extract_switch ty data attrs assets =
     (if ty = ElementNode then
        (if data = ''img'' then img_attrs attrs assets
         else if data = ''link'' then link_attrs attrs attrs assets
         else if data = ''script'' then script_attrs attrs assets
         else if data = ''source'' then source_attrs attrs assets
         else assets)
      else assets)"

text \<open>The recursive closure \<^verbatim>\<open>extract\<close> (\<open>extract_node\<close> here): the node
  itself, then its children in order.\<close>

fun extract_node :: "Node \<Rightarrow> string list \<Rightarrow> string list"
  and extract_children :: "Node list \<Rightarrow> string list \<Rightarrow> string list" where
  "extract_node (Node ty data attrs cs) assets =
     extract_children cs (extract_switch ty data attrs assets)"
| "extract_children [] assets = assets"
| "extract_children (c # cs) assets = extract_children cs (extract_node c assets)"

section \<open>The world a run observes\<close>

text \<open>A Go \<^verbatim>\<open>error\<close> is modelled by its message.\<close>

type_synonym error = string

text \<open>
  A directory as \<^verbatim>\<open>os.ReadDir\<close> reports it: a read error, or the entries in the
  order returned (sorted by file name). An entry is a directory (\<^verbatim>\<open>IsDir()\<close>
  true) with the listing a recursive \<^verbatim>\<open>os.ReadDir\<close> of it gives, a regular
  file, or anything else that is not a directory (a symbolic link, a socket, a device).
\<close>

datatype DirEntry = RegularFile string | Irregular string | Directory string Listing
  and Listing = ReadError error | Entries "DirEntry list"

text \<open>What \<^verbatim>\<open>os.Stat\<close> followed by \<^verbatim>\<open>os.IsNotExist(err)\<close> tells apart: no
  error, the not-exist error, any other error.\<close>

datatype StatResult = StatOK | StatNotExist | StatOtherError

datatype ApiReply = ApiError error | ApiText string | ApiPanic

record lighthouseScores =
  S_Performance :: int
  S_Accessibility :: int
  S_SEO :: int

text \<open>
  The answers of the operating system and of the external tools, one field per call the
  program makes. The two calls of \<^verbatim>\<open>findAvailablePort\<close> happen at different
  times and have an answer each. \<open>html_Parse\<close> and \<open>EncodeToString\<close> are the library
  functions \<^verbatim>\<open>html.Parse\<close> and base64 encoding, whose results the checks only pass
  on. \<open>runLighthouse\<close>, \<open>chromedp_Run\<close> (viewport width and height, URL) and
  \<open>callVisionAPI\<close> stand for the subprocess, the browser and the HTTP request;
  \<open>ApiPanic\<close> is a reply whose first choice has no content part, on which line 232 of
  \<^verbatim>\<open>vision.go\<close> indexes out of range.
\<close>

record env =
  ReadDir :: "string \<Rightarrow> Listing"
  Stat :: "string \<Rightarrow> StatResult"
  ReadFile :: "string \<Rightarrow> error + string"
  html_Parse :: "string \<Rightarrow> error + Node"
  Abs :: "string \<Rightarrow> error + string"
  Now :: string
  isLighthouseAvailable :: bool
  findAvailablePort_lighthouse :: "error + int"
  runLighthouse :: "string \<Rightarrow> error + lighthouseScores"
  MkdirAll :: "string \<Rightarrow> error option"
  findAvailablePort_screenshots :: "error + int"
  chromedp_Run :: "int \<Rightarrow> int \<Rightarrow> string \<Rightarrow> error + string"
  WriteFile :: "string \<Rightarrow> string \<Rightarrow> error option"
  Getenv :: "string \<Rightarrow> string"
  EncodeToString :: "string \<Rightarrow> string"
  callVisionAPI :: "string \<Rightarrow> string \<Rightarrow> string \<Rightarrow> string \<Rightarrow> string \<Rightarrow> ApiReply"

section \<open>The Assets check (\<^verbatim>\<open>assets.go\<close>)\<close>

text \<open>\<^verbatim>\<open>findHTMLFiles\<close>: \<open>findHTMLFiles dir l\<close> is the call on the path \<open>dir\<close>
  whose \<^verbatim>\<open>os.ReadDir\<close> answer is \<open>l\<close>; \<open>findHTMLFiles_loop\<close> is its loop over
  the entries with the slice \<open>files\<close> built so far.\<close>

fun findHTMLFiles :: "string \<Rightarrow> Listing \<Rightarrow> error + string list"
  and findHTMLFiles_loop :: "string \<Rightarrow> DirEntry list \<Rightarrow> string list \<Rightarrow> error + string list" where
  "findHTMLFiles dir (ReadError err) = Inl err"
| "findHTMLFiles dir (Entries entries) = findHTMLFiles_loop dir entries []"
| "findHTMLFiles_loop dir [] files = Inr files"
| "findHTMLFiles_loop dir (Directory name l # rest) files =
     (case findHTMLFiles (filepath_Join dir name) l of
        Inl err \<Rightarrow> Inl err
      | Inr subFiles \<Rightarrow> findHTMLFiles_loop dir rest (files @ subFiles))"
| "findHTMLFiles_loop dir (RegularFile name # rest) files =
     findHTMLFiles_loop dir rest
       (if HasSuffix name ''.html'' \<or> HasSuffix name ''.htm''
        then files @ [filepath_Join dir name] else files)"
| "findHTMLFiles_loop dir (Irregular name # rest) files =
     findHTMLFiles_loop dir rest
       (if HasSuffix name ''.html'' \<or> HasSuffix name ''.htm''
        then files @ [filepath_Join dir name] else files)"

definition extractAssets :: "env \<Rightarrow> string \<Rightarrow> string \<Rightarrow> error + string list" where
  "extractAssets e htmlFile baseDir =
     (case ReadFile e htmlFile of
        Inl err \<Rightarrow> Inl err
      | Inr data \<Rightarrow>
          (case html_Parse e data of
             Inl err \<Rightarrow> Inl err
           | Inr doc \<Rightarrow> Inr (extract_node doc [])))"

text \<open>The inner loop of \<^verbatim>\<open>CheckAssets\<close> over the references of one document, on the
  pair of \<^verbatim>\<open>missing\<close> and \<^verbatim>\<open>totalAssets\<close>.\<close>

fun assets_loop :: "env \<Rightarrow> string \<Rightarrow> string list \<Rightarrow> string list \<times> int \<Rightarrow> string list \<times> int" where
  "assets_loop e distDir [] st = st"
| "assets_loop e distDir (asset # rest) (missing, totalAssets) =
     assets_loop e distDir rest
       (if Stat e (assetPath distDir asset) = StatNotExist then missing @ [asset] else missing,
        totalAssets + 1)"

text \<open>The outer loop over the documents; \<open>Inl\<close> is the early return on a document that
  cannot be read or parsed, with the file and the error.\<close>

fun files_loop ::
  "env \<Rightarrow> string \<Rightarrow> string list \<Rightarrow> string list \<times> int \<Rightarrow> (string \<times> error) + (string list \<times> int)" where
  "files_loop e distDir [] st = Inr st"
| "files_loop e distDir (htmlFile # rest) st =
     (case extractAssets e htmlFile distDir of
        Inl err \<Rightarrow> Inl (htmlFile, err)
      | Inr assets \<Rightarrow> files_loop e distDir rest (assets_loop e distDir assets st))"

definition CheckAssets :: "env \<Rightarrow> string \<Rightarrow> AssetsResult" where
  "CheckAssets e distDir =
     (let result = \<lparr>Status = ''PASS'', Details = [], Total = 0, Missing = []\<rparr> in
      case findHTMLFiles distDir (ReadDir e distDir) of
        Inl err \<Rightarrow>
          result\<lparr>Status := ''FAIL'', Details := ''Error finding HTML files: '' @ err\<rparr>
      | Inr htmlFiles \<Rightarrow>
          if length htmlFiles = 0 then
            result\<lparr>Status := ''FAIL'', Details := ''No HTML files found in dist directory''\<rparr>
          else
            (case files_loop e distDir htmlFiles ([], 0) of
               Inl (htmlFile, err) \<Rightarrow>
                 result\<lparr>Status := ''FAIL'',
                        Details := ''Error parsing '' @ htmlFile @ '': '' @ err\<rparr>
             | Inr (missing, totalAssets) \<Rightarrow>
                 (let result = result\<lparr>Total := totalAssets, Missing := missing\<rparr> in
                  if length missing > 0 then
                    result\<lparr>Status := ''FAIL'',
                           Details := ''Missing '' @ itoa (int (length missing)) @ '' assets''\<rparr>
                  else
                    result\<lparr>Details := itoa totalAssets @ ''/'' @ itoa totalAssets
                                         @ '' assets verified''\<rparr>)))"


section \<open>The Build check (\<^verbatim>\<open>build.go\<close>)\<close>

record BuildFlags =
  hasHTML :: bool
  hasHead :: bool
  hasBody :: bool
  hasTitle :: bool
  hasDescription :: bool
  hasOgTitle :: bool

text \<open>The attribute loop of the \<^verbatim>\<open>meta\<close> case, on the triple of
  \<^verbatim>\<open>name\<close>, \<^verbatim>\<open>prop\<close> and \<^verbatim>\<open>content\<close>.\<close>

fun meta_attrs :: "Attribute list \<Rightarrow> string \<times> string \<times> string \<Rightarrow> string \<times> string \<times> string" where
  "meta_attrs [] st = st"
| "meta_attrs (attr # rest) (name, prop, content) =
     meta_attrs rest
       (if Key attr = ''name'' then Val attr else name,
        if Key attr = ''property'' then Val attr else prop,
        if Key attr = ''content'' then Val attr else content)"

definition check_switch :: "NodeType \<Rightarrow> string \<Rightarrow> Attribute list \<Rightarrow> BuildFlags \<Rightarrow> BuildFlags" where
  "check_switch ty data attrs f =
     (if ty = ElementNode then
        (if data = ''html'' then f\<lparr>hasHTML := True\<rparr>
         else if data = ''head'' then f\<lparr>hasHead := True\<rparr>
         else if data = ''body'' then f\<lparr>hasBody := True\<rparr>
         else if data = ''title'' then f\<lparr>hasTitle := True\<rparr>
         else if data = ''meta'' then
           (case meta_attrs attrs ([], [], []) of
              (name, prop, content) \<Rightarrow>
                (let f1 = (if name = ''description'' \<and> content \<noteq> []
                           then f\<lparr>hasDescription := True\<rparr> else f)
                 in if prop = ''og:title'' \<and> content \<noteq> []
                    then f1\<lparr>hasOgTitle := True\<rparr> else f1))
         else f)
      else f)"

text \<open>The recursive closure \<^verbatim>\<open>check\<close>.\<close>

fun check_node :: "Node \<Rightarrow> BuildFlags \<Rightarrow> BuildFlags"
  and check_children :: "Node list \<Rightarrow> BuildFlags \<Rightarrow> BuildFlags" where
  "check_node (Node ty data attrs cs) f = check_children cs (check_switch ty data attrs f)"
| "check_children [] f = f"
| "check_children (c # cs) f = check_children cs (check_node c f)"

definition build_errors :: "BuildFlags \<Rightarrow> string list" where
  "build_errors f =
     (if hasHTML f then [] else [''missing <html> tag''])
     @ (if hasHead f then [] else [''missing <head> tag''])
     @ (if hasBody f then [] else [''missing <body> tag''])
     @ (if hasTitle f then [] else [''missing <title> tag''])
     @ (if hasDescription f then [] else [''missing meta description''])
     @ (if hasOgTitle f then [] else [''missing og:title meta tag''])"

definition CheckBuild :: "env \<Rightarrow> string \<Rightarrow> BuildResult" where
  "CheckBuild e distDir =
     (let result = \<lparr>Status = ''PASS'', Details = [], Pages = 0\<rparr>;
          indexPath = filepath_Join distDir ''index.html''
      in if Stat e indexPath = StatNotExist then
           result\<lparr>Status := ''FAIL'', Details := ''index.html not found''\<rparr>
         else
           (case ReadFile e indexPath of
              Inl err \<Rightarrow>
                result\<lparr>Status := ''FAIL'', Details := ''Failed to read index.html: '' @ err\<rparr>
            | Inr data \<Rightarrow>
                (case html_Parse e data of
                   Inl err \<Rightarrow>
                     result\<lparr>Status := ''FAIL'', Details := ''HTML parse error: '' @ err\<rparr>
                 | Inr doc \<Rightarrow>
                     (let errors = build_errors
                            (check_node doc
                               \<lparr>hasHTML = False, hasHead = False, hasBody = False,
                                hasTitle = False, hasDescription = False, hasOgTitle = False\<rparr>);
                          htmlFiles = (case findHTMLFiles distDir (ReadDir e distDir) of
                                         Inl err \<Rightarrow> [] | Inr files \<Rightarrow> files);
                          result = result\<lparr>Pages := int (length htmlFiles)\<rparr>
                      in if length errors > 0 then
                           result\<lparr>Status := ''FAIL'', Details := Join_strings errors '', ''\<rparr>
                         else
                           result\<lparr>Details := ''Valid HTML, '' @ itoa (Pages result)
                                                @ '' page(s), meta tags present''\<rparr>))))"

section \<open>The Lighthouse check (second part of \<^verbatim>\<open>assets.go\<close>)\<close>

definition CheckLighthouse :: "env \<Rightarrow> string \<Rightarrow> int \<Rightarrow> int \<Rightarrow> int \<Rightarrow> LighthouseResult \<times> error option" where
  "CheckLighthouse e distDir perfThreshold a11yThreshold seoThreshold =
     (let result =
            \<lparr>Status = ''PASS'', Details = [], Performance = 0, Accessibility = 0, SEO = 0,
             Thresholds = \<lparr>T_Performance = perfThreshold, T_Accessibility = a11yThreshold,
                           T_SEO = seoThreshold\<rparr>\<rparr>
      in if \<not> isLighthouseAvailable e then
           (result, Some ''lighthouse not installed (run: npm install -g lighthouse)'')
         else
           (case findAvailablePort_lighthouse e of
              Inl err \<Rightarrow> (result, Some (''failed to find available port: '' @ err))
            | Inr port \<Rightarrow>
                (case runLighthouse e (''http://localhost:'' @ itoa port) of
                   Inl err \<Rightarrow> (result, Some (''lighthouse failed: '' @ err))
                 | Inr scores \<Rightarrow>
                     (let r1 = result\<lparr>Performance := S_Performance scores,
                                       Accessibility := S_Accessibility scores,
                                       SEO := S_SEO scores\<rparr>;
                          r2 = (if Performance r1 < perfThreshold
                                   \<or> Accessibility r1 < a11yThreshold
                                   \<or> SEO r1 < seoThreshold
                                then r1\<lparr>Status := ''FAIL''\<rparr> else r1)
                      in (r2\<lparr>Details := ''Perf: '' @ itoa (Performance r2) @ '', A11y: ''
                                          @ itoa (Accessibility r2) @ '', SEO: ''
                                          @ itoa (SEO r2)\<rparr>,
                          None)))))"

section \<open>The Screenshots check (\<^verbatim>\<open>screenshots.go\<close>)\<close>

text \<open>Every failure path sets \<^verbatim>\<open>result.Status = "FAIL"\<close> and a detail, and returns
  the result together with the error.\<close>

definition CaptureScreenshots :: "env \<Rightarrow> string \<Rightarrow> ScreenshotsResult \<times> error option" where
  "CaptureScreenshots e distDir =
     (let result = \<lparr>Status = ''PASS'', Details = [], Desktop = [], Mobile = []\<rparr>;
          screenshotsDir = ''screenshots''
      in case MkdirAll e screenshotsDir of
           Some err \<Rightarrow>
             (result\<lparr>Status := ''FAIL'',
                     Details := ''Failed to create screenshots directory: '' @ err\<rparr>, Some err)
         | None \<Rightarrow>
             (case findAvailablePort_screenshots e of
                Inl err \<Rightarrow>
                  (result\<lparr>Status := ''FAIL'',
                          Details := ''Failed to find available port: '' @ err\<rparr>, Some err)
              | Inr port \<Rightarrow>
                  (let url = ''http://localhost:'' @ itoa port;
                       desktopPath = filepath_Join screenshotsDir ''desktop.png'';
                       mobilePath = filepath_Join screenshotsDir ''mobile.png''
                   in case chromedp_Run e 1280 900 url of
                        Inl err \<Rightarrow>
                          (result\<lparr>Status := ''FAIL'',
                                  Details := ''Desktop screenshot failed: '' @ err\<rparr>, Some err)
                      | Inr desktopBuf \<Rightarrow>
                          (case WriteFile e desktopPath desktopBuf of
                             Some err \<Rightarrow>
                               (result\<lparr>Status := ''FAIL'',
                                       Details := ''Failed to write desktop screenshot: '' @ err\<rparr>,
                                Some err)
                           | None \<Rightarrow>
                               (case chromedp_Run e 390 844 url of
                                  Inl err \<Rightarrow>
                                    (result\<lparr>Status := ''FAIL'',
                                            Details := ''Mobile screenshot failed: '' @ err\<rparr>,
                                     Some err)
                                | Inr mobileBuf \<Rightarrow>
                                    (case WriteFile e mobilePath mobileBuf of
                                       Some err \<Rightarrow>
                                         (result\<lparr>Status := ''FAIL'',
                                                 Details := ''Failed to write mobile screenshot: ''
                                                            @ err\<rparr>,
                                          Some err)
                                     | None \<Rightarrow>
                                         (result\<lparr>Desktop := desktopPath, Mobile := mobilePath\<rparr>,
                                          None)))))))"


section \<open>The Vision check (\<^verbatim>\<open>vision.go\<close>)\<close>

text \<open>
  The two regular expressions of \<^verbatim>\<open>parseScoreFromAnalysis\<close>, each translated by
  hand into the matcher Go's \<^verbatim>\<open>FindStringSubmatch\<close> is on it: the leftmost match,
  and at one start the first alternative that matches. In Go's syntax \<^verbatim>\<open>\s\<close> is
  one of tab, newline, form feed, carriage return and space, \<^verbatim>\<open>\d\<close> is an ASCII
  digit, and \<^verbatim>\<open>\b\<close> is the boundary between an ASCII word character
  (letter, digit, underscore) and anything else, the ends of the text included.
\<close>

definition is_space :: "char \<Rightarrow> bool" where
  "is_space c = (c \<in> set [CHR 0x09, CHR 0x0A, CHR 0x0C, CHR 0x0D, CHR 0x20])"

definition is_word :: "char \<Rightarrow> bool" where
  "is_word c =
     (c \<in> set ''0123456789ABCDEFGHIJKLMNOPQRSTUVWXYZabcdefghijklmnopqrstuvwxyz_'')"

text \<open>
  \<^verbatim>\<open>OVERALL:\s*(\d+)\s*/\s*10\<close> matched at the start of \<open>s\<close>: the text of the
  group. White space, digits and the slash are disjoint classes, so each greedy star
  and plus takes its whole run and no other split of the text can match.
\<close>

definition overall_at :: "string \<Rightarrow> string option" where
  "overall_at s =
     (if HasPrefix s ''OVERALL:'' then
        (let r1 = dropWhile is_space (drop 8 s);
             ds = takeWhile is_digit r1;
             r2 = dropWhile is_space (dropWhile is_digit r1)
         in if ds \<noteq> [] \<and> HasPrefix r2 ''/''
               \<and> HasPrefix (dropWhile is_space (drop 1 r2)) ''10''
            then Some ds else None)
      else None)"

fun find_overall :: "string \<Rightarrow> string option" where
  "find_overall [] = None"
| "find_overall (c # cs) =
     (case overall_at (c # cs) of Some ds \<Rightarrow> Some ds | None \<Rightarrow> find_overall cs)"

text \<open>
  \<^verbatim>\<open>\b([1-9]|10)\b\<close>: \<open>number_at s\<close> is the group when the alternation and the
  closing boundary match at the start of \<open>s\<close>; \<open>find_number w s\<close> scans \<open>s\<close>, where
  \<open>w\<close> tells whether the character before \<open>s\<close> is a word character (the opening
  boundary in front of a digit needs that it is not).
\<close>

definition ends_word :: "string \<Rightarrow> bool" where
  "ends_word r = (case r of [] \<Rightarrow> True | x # _ \<Rightarrow> \<not> is_word x)"

definition number_at :: "string \<Rightarrow> string option" where
  "number_at s =
     (case s of
        [] \<Rightarrow> None
      | c # r \<Rightarrow>
          if c \<in> set ''123456789'' \<and> ends_word r then Some [c]
          else if HasPrefix s ''10'' \<and> ends_word (drop 2 s) then Some ''10''
          else None)"

fun find_number :: "bool \<Rightarrow> string \<Rightarrow> string option" where
  "find_number w [] = None"
| "find_number w (c # cs) =
     (if w then find_number (is_word c) cs
      else (case number_at (c # cs) of
              Some m \<Rightarrow> Some m
            | None \<Rightarrow> find_number (is_word c) cs))"

definition parseScoreFromAnalysis :: "string \<Rightarrow> int" where
  "parseScoreFromAnalysis analysis =
     (let fallback =
            (case find_number False analysis of
               Some m \<Rightarrow> (case Atoi m of Some score \<Rightarrow> score | None \<Rightarrow> 0)
             | None \<Rightarrow> 0)
      in case find_overall analysis of
           Some m \<Rightarrow> (case Atoi m of Some score \<Rightarrow> score | None \<Rightarrow> fallback)
         | None \<Rightarrow> fallback)"

definition encodeImage :: "env \<Rightarrow> string \<Rightarrow> error + string" where
  "encodeImage e path =
     (case ReadFile e path of Inl err \<Rightarrow> Inl err | Inr data \<Rightarrow> Inr (EncodeToString e data))"

text \<open>\<^verbatim>\<open>CheckVision\<close>; \<open>None\<close> is the panic inside \<^verbatim>\<open>callVisionAPI\<close>.\<close>

definition CheckVision :: "env \<Rightarrow> string \<Rightarrow> int \<Rightarrow> (VisionResult \<times> error option) option" where
  "CheckVision e baselineDir threshold =
     (let result = \<lparr>Status = ''PASS'', Details = [], Score = 0, Threshold = threshold,
                     Analysis = []\<rparr>;
          apiKey = Getenv e ''OPENROUTER_API_KEY'';
          baselineDesktop = filepath_Join baselineDir ''desktop.png'';
          baselineMobile = filepath_Join baselineDir ''mobile.png'';
          newDesktop = ''screenshots/desktop.png'';
          newMobile = ''screenshots/mobile.png''
      in if apiKey = [] then Some (result, Some ''OPENROUTER_API_KEY not set'')
         else if Stat e baselineDesktop = StatNotExist then
           Some (result, Some (''baseline desktop.png not found in '' @ baselineDir))
         else if Stat e baselineMobile = StatNotExist then
           Some (result, Some (''baseline mobile.png not found in '' @ baselineDir))
         else if Stat e newDesktop = StatNotExist then
           Some (result, Some ''new desktop.png not found (run screenshots check first)'')
         else if Stat e newMobile = StatNotExist then
           Some (result, Some ''new mobile.png not found (run screenshots check first)'')
         else
           (case encodeImage e newDesktop of
              Inl err \<Rightarrow> Some (result, Some (''failed to encode desktop screenshot: '' @ err))
            | Inr desktopBase64 \<Rightarrow>
           (case encodeImage e newMobile of
              Inl err \<Rightarrow> Some (result, Some (''failed to encode mobile screenshot: '' @ err))
            | Inr mobileBase64 \<Rightarrow>
           (case encodeImage e baselineDesktop of
              Inl err \<Rightarrow> Some (result, Some (''failed to encode baseline desktop: '' @ err))
            | Inr baselineDesktopBase64 \<Rightarrow>
           (case encodeImage e baselineMobile of
              Inl err \<Rightarrow> Some (result, Some (''failed to encode baseline mobile: '' @ err))
            | Inr baselineMobileBase64 \<Rightarrow>
           (case callVisionAPI e apiKey baselineDesktopBase64 baselineMobileBase64
                   desktopBase64 mobileBase64 of
              ApiPanic \<Rightarrow> None
            | ApiError err \<Rightarrow> Some (result, Some (''vision API call failed: '' @ err))
            | ApiText analysis \<Rightarrow>
                (let score = parseScoreFromAnalysis analysis;
                     r1 = result\<lparr>Score := score, Analysis := analysis\<rparr>
                 in Some (if score < threshold then r1\<lparr>Status := ''FAIL''\<rparr> else r1,
                          None))))))))"

section \<open>The pipeline (\<^verbatim>\<open>main\<close>)\<close>

text \<open>The command-line flags; \<open>flag_dir\<close> is \<^verbatim>\<open>*dir\<close>, and so on.\<close>

record Flags =
  flag_dir :: string
  flag_baseline :: string
  flag_threshold :: int
  flag_lighthousePerf :: int
  flag_lighthouseA11y :: int
  flag_lighthouseSEO :: int

text \<open>
  What a run leaves behind: the exit code, and the report handed to the JSON encoder by
  \<^verbatim>\<open>writeReport\<close> (\<open>None\<close> when the process ends without calling it). Console
  output is not modelled.
\<close>

record Outcome =
  exit_code :: int
  written :: "Report option"

text \<open>\<^verbatim>\<open>printSummary\<close> assigns \<^verbatim>\<open>r.Overall = "FAIL"\<close> before it prints;
  \<^verbatim>\<open>writeReport\<close> stamps the time and serializes.\<close>

definition printSummary :: "Report \<Rightarrow> Report" where
  "printSummary r = r\<lparr>Overall := ''FAIL''\<rparr>"

definition writeReport :: "env \<Rightarrow> Report \<Rightarrow> Report" where
  "writeReport e r = r\<lparr>Timestamp := Now e\<rparr>"

text \<open>The three lines \<^verbatim>\<open>printSummary(r); writeReport(r); os.Exit(1)\<close> of every
  failing gate, and the last five lines of \<^verbatim>\<open>main\<close>.\<close>

definition exit_fail :: "env \<Rightarrow> Report \<Rightarrow> Outcome" where
  "exit_fail e r = \<lparr>exit_code = 1, written = Some (writeReport e (printSummary r))\<rparr>"

definition exit_pass :: "env \<Rightarrow> Report \<Rightarrow> Outcome" where
  "exit_pass e r =
     \<lparr>exit_code = 0, written = Some (writeReport e (printSummary (r\<lparr>Overall := ''PASS''\<rparr>)))\<rparr>"

text \<open>\<^verbatim>\<open>main\<close> from check 5 on, from check 4 on, and so on back to the start.\<close>

definition main_vision :: "env \<Rightarrow> Flags \<Rightarrow> Report \<Rightarrow> Outcome" where
  "main_vision e fl r =
     (if flag_baseline fl \<noteq> [] then
        (case CheckVision e (flag_baseline fl) (flag_threshold fl) of
           None \<Rightarrow> \<lparr>exit_code = 2, written = None\<rparr>
         | Some (visionResult, err) \<Rightarrow>
             (let r1 = r\<lparr>Checks := (Checks r)\<lparr>Vision := visionResult\<rparr>\<rparr> in
              case err of
                Some msg \<Rightarrow>
                  exit_pass e (r1\<lparr>Checks := (Checks r1)\<lparr>Vision := (Vision (Checks r1))\<lparr>Status := ''SKIP''\<rparr>\<rparr>\<rparr>)
              | None \<Rightarrow>
                  if Status visionResult = ''FAIL'' then exit_fail e r1 else exit_pass e r1))
      else
        exit_pass e
          (r\<lparr>Checks := (Checks r)\<lparr>Vision :=
               \<lparr>Status = ''SKIP'', Details = ''No baseline provided'', Score = 0,
                Threshold = flag_threshold fl, Analysis = []\<rparr>\<rparr>\<rparr>))"

definition main_screenshots :: "env \<Rightarrow> Flags \<Rightarrow> string \<Rightarrow> Report \<Rightarrow> Outcome" where
  "main_screenshots e fl absDir r =
     (case CaptureScreenshots e absDir of
        (screenshotResult, err) \<Rightarrow>
          (let r1 = r\<lparr>Checks := (Checks r)\<lparr>Screenshots := screenshotResult\<rparr>\<rparr> in
           case err of
             Some msg \<Rightarrow>
               main_vision e fl
                 (r1\<lparr>Checks := (Checks r1)\<lparr>Screenshots :=
                       (Screenshots (Checks r1))\<lparr>Status := ''SKIP'', Details := msg\<rparr>\<rparr>\<rparr>)
           | None \<Rightarrow> main_vision e fl r1))"

definition main_lighthouse :: "env \<Rightarrow> Flags \<Rightarrow> string \<Rightarrow> Report \<Rightarrow> Outcome" where
  "main_lighthouse e fl absDir r =
     (case CheckLighthouse e absDir (flag_lighthousePerf fl) (flag_lighthouseA11y fl) (flag_lighthouseSEO fl) of
        (lighthouseResult, err) \<Rightarrow>
          (let r1 = r\<lparr>Checks := (Checks r)\<lparr>Lighthouse := lighthouseResult\<rparr>\<rparr> in
           case err of
             Some msg \<Rightarrow>
               main_screenshots e fl absDir
                 (r1\<lparr>Checks := (Checks r1)\<lparr>Lighthouse :=
                       (Lighthouse (Checks r1))\<lparr>Status := ''SKIP'', Details := msg\<rparr>\<rparr>\<rparr>)
           | None \<Rightarrow>
               if Status lighthouseResult = ''FAIL'' then exit_fail e r1
               else main_screenshots e fl absDir r1))"

definition main_build :: "env \<Rightarrow> Flags \<Rightarrow> string \<Rightarrow> Report \<Rightarrow> Outcome" where
  "main_build e fl absDir r =
     (let buildResult = CheckBuild e absDir;
          r1 = r\<lparr>Checks := (Checks r)\<lparr>Build := buildResult\<rparr>\<rparr>
      in if Status buildResult = ''FAIL'' then exit_fail e r1
         else main_lighthouse e fl absDir r1)"

definition main_assets :: "env \<Rightarrow> Flags \<Rightarrow> string \<Rightarrow> Report \<Rightarrow> Outcome" where
  "main_assets e fl absDir r =
     (let assetsResult = CheckAssets e absDir;
          r1 = r\<lparr>Checks := (Checks r)\<lparr>Assets := assetsResult\<rparr>\<rparr>
      in if Status assetsResult = ''FAIL'' then exit_fail e r1
         else main_build e fl absDir r1)"

definition main :: "env \<Rightarrow> Flags \<Rightarrow> Outcome" where
  "main e fl =
     (if flag_dir fl = [] then \<lparr>exit_code = 1, written = None\<rparr>
      else
        (case Abs e (flag_dir fl) of
           Inl err \<Rightarrow> \<lparr>exit_code = 1, written = None\<rparr>
         | Inr absDir \<Rightarrow> main_assets e fl absDir (NewReport absDir)))"


section \<open>Specification-side notions\<close>

text \<open>
  \<open>truncated_at sub r rel\<close>: \<open>rel\<close> is the reference \<open>r\<close> cut so that it begins at
  the first occurrence of \<open>sub\<close> in \<open>r\<close>.
\<close>

definition truncated_at :: "string \<Rightarrow> string \<Rightarrow> string \<Rightarrow> bool" where
  "truncated_at sub r rel \<longleftrightarrow>
     (\<exists>pre. r = pre @ rel \<and> prefix sub rel \<and>
        (\<forall>pre' post'. r = pre' @ sub @ post' \<longrightarrow> length pre \<le> length pre'))"

text \<open>The names \<^verbatim>\<open>findHTMLFiles\<close> keeps.\<close>

definition html_name :: "string \<Rightarrow> bool" where
  "html_name n = (HasSuffix n ''.html'' \<or> HasSuffix n ''.htm'')"

text \<open>A tree is readable when no directory in it fails to be read.\<close>

fun readable :: "Listing \<Rightarrow> bool"
  and readable_entries :: "DirEntry list \<Rightarrow> bool" where
  "readable (ReadError err) = False"
| "readable (Entries entries) = readable_entries entries"
| "readable_entries [] = True"
| "readable_entries (Directory name l # rest) = (readable l \<and> readable_entries rest)"
| "readable_entries (RegularFile name # rest) = readable_entries rest"
| "readable_entries (Irregular name # rest) = readable_entries rest"

text \<open>
  Every entry of the tree that is not a directory, as a pair of its path and its name, in
  the order of the listings with the content of a subdirectory standing where the
  subdirectory's own entry stands.
\<close>

fun nondir_entries :: "string \<Rightarrow> Listing \<Rightarrow> (string \<times> string) list"
  and nondir_entries_list :: "string \<Rightarrow> DirEntry list \<Rightarrow> (string \<times> string) list" where
  "nondir_entries dir (ReadError err) = []"
| "nondir_entries dir (Entries entries) = nondir_entries_list dir entries"
| "nondir_entries_list dir [] = []"
| "nondir_entries_list dir (Directory name l # rest) =
     nondir_entries (filepath_Join dir name) l @ nondir_entries_list dir rest"
| "nondir_entries_list dir (RegularFile name # rest) =
     (filepath_Join dir name, name) # nondir_entries_list dir rest"
| "nondir_entries_list dir (Irregular name # rest) =
     (filepath_Join dir name, name) # nondir_entries_list dir rest"

definition html_paths :: "(string \<times> string) list \<Rightarrow> string list" where
  "html_paths xs = map fst (filter (\<lambda>x. html_name (snd x)) xs)"

text \<open>
  The order the specification words for the tree walker: of each directory first the
  regular files that are its direct children, then what recursing into its
  subdirectories finds.
\<close>

fun children_first :: "string \<Rightarrow> Listing \<Rightarrow> string list"
  and children_first_files :: "string \<Rightarrow> DirEntry list \<Rightarrow> string list"
  and children_first_dirs :: "string \<Rightarrow> DirEntry list \<Rightarrow> string list" where
  "children_first dir (ReadError err) = []"
| "children_first dir (Entries entries) =
     children_first_files dir entries @ children_first_dirs dir entries"
| "children_first_files dir [] = []"
| "children_first_files dir (RegularFile name # rest) =
     (if html_name name then [filepath_Join dir name] else []) @ children_first_files dir rest"
| "children_first_files dir (Irregular name # rest) = children_first_files dir rest"
| "children_first_files dir (Directory name l # rest) = children_first_files dir rest"
| "children_first_dirs dir [] = []"
| "children_first_dirs dir (Directory name l # rest) =
     children_first (filepath_Join dir name) l @ children_first_dirs dir rest"
| "children_first_dirs dir (RegularFile name # rest) = children_first_dirs dir rest"
| "children_first_dirs dir (Irregular name # rest) = children_first_dirs dir rest"

text \<open>A reference is absent when \<^verbatim>\<open>os.Stat\<close> on its candidate path reports that
  the path does not exist.\<close>

definition absent :: "env \<Rightarrow> string \<Rightarrow> string \<Rightarrow> bool" where
  "absent e distDir asset = (Stat e (assetPath distDir asset) = StatNotExist)"

text \<open>The six flags of \<^verbatim>\<open>CheckBuild\<close> before the document is visited.\<close>

definition no_flags :: BuildFlags where
  "no_flags =
     \<lparr>hasHTML = False, hasHead = False, hasBody = False,
      hasTitle = False, hasDescription = False, hasOgTitle = False\<rparr>"

section \<open>Example worlds\<close>

text \<open>A site directory with a subdirectory \<^verbatim>\<open>a\<close> that sorts before the file
  \<^verbatim>\<open>b.html\<close>, a symbolic link \<^verbatim>\<open>c.htm\<close> and a text file.\<close>

definition walk_tree :: Listing where
  "walk_tree =
     Entries [Directory ''a'' (Entries [RegularFile ''x.html'']),
              RegularFile ''b.html'', Irregular ''c.htm'', RegularFile ''d.txt'']"

text \<open>
  A small site: \<^verbatim>\<open>/site/index.html\<close> with the six structural elements, a
  stylesheet link and the same image twice, written with unquoted attribute values;
  \<open>demo_doc\<close> is the tree \<^verbatim>\<open>html.Parse\<close> builds from \<open>demo_html\<close>, and
  \<open>bare_doc\<close> the skeleton it builds from an empty file.
\<close>

definition demo_html :: string where
  "demo_html =
     ''<html><head><title>t</title><meta name=description content=d>''
     @ ''<meta property=og:title content=t><link rel=stylesheet href=style.css></head>''
     @ ''<body><img src=/images/a.png><img src=/images/a.png></body></html>''"

definition attr :: "string \<Rightarrow> string \<Rightarrow> Attribute" where
  "attr k v = \<lparr>Namespace = [], Key = k, Val = v\<rparr>"

definition demo_doc :: Node where
  "demo_doc =
     Node DocumentNode [] []
       [Node ElementNode ''html'' []
          [Node ElementNode ''head'' []
             [Node ElementNode ''title'' [] [Node TextNode ''t'' [] []],
              Node ElementNode ''meta'' [attr ''name'' ''description'', attr ''content'' ''d''] [],
              Node ElementNode ''meta'' [attr ''property'' ''og:title'', attr ''content'' ''t''] [],
              Node ElementNode ''link'' [attr ''rel'' ''stylesheet'', attr ''href'' ''style.css''] []],
           Node ElementNode ''body'' []
             [Node ElementNode ''img'' [attr ''src'' ''/images/a.png''] [],
              Node ElementNode ''img'' [attr ''src'' ''/images/a.png''] []]]]"

definition bare_doc :: Node where
  "bare_doc =
     Node DocumentNode [] []
       [Node ElementNode ''html'' []
          [Node ElementNode ''head'' [] [], Node ElementNode ''body'' [] []]]"

text \<open>
  The world of a run in which every tool is installed and every check passes: the files
  the page refers to exist, the audit scores 95, 98 and 100, both captures succeed. No
  credential is set.
\<close>

definition demo_env :: env where
  "demo_env =
     \<lparr>ReadDir = (\<lambda>p. if p = ''/site'' then Entries [RegularFile ''index.html'']
                       else ReadError ''no such file or directory''),
      Stat = (\<lambda>p. if p = ''/site/index.html'' \<or> p = ''/site/images/a.png''
                       \<or> p = ''/site/style.css''
                    then StatOK else StatNotExist),
      ReadFile = (\<lambda>p. if p = ''/site/index.html'' then Inr demo_html
                        else Inl ''no such file or directory''),
      html_Parse = (\<lambda>data. if data = demo_html then Inr demo_doc else Inr bare_doc),
      Abs = (\<lambda>p. Inr (if HasPrefix p ''/'' then Clean p else filepath_Join ''/work'' p)),
      Now = ''2026-02-15T05:30:00Z'',
      isLighthouseAvailable = True,
      findAvailablePort_lighthouse = Inr 40001,
      runLighthouse = (\<lambda>url. Inr \<lparr>S_Performance = 95, S_Accessibility = 98, S_SEO = 100\<rparr>),
      MkdirAll = (\<lambda>p. None),
      findAvailablePort_screenshots = Inr 40002,
      chromedp_Run = (\<lambda>w h url. Inr ''PNG''),
      WriteFile = (\<lambda>p data. None),
      Getenv = (\<lambda>k. []),
      EncodeToString = (\<lambda>data. if data = ''PNG'' then ''UE5H'' else []),
      callVisionAPI = (\<lambda>k bd bm nd nm. ApiError ''API returned status 401'')\<rparr>"

definition demo_flags :: Flags where
  "demo_flags =
     \<lparr>flag_dir = ''/site'', flag_baseline = [], flag_threshold = 7,
      flag_lighthousePerf = 90, flag_lighthouseA11y = 90, flag_lighthouseSEO = 90\<rparr>"

text \<open>The same world with an empty \<^verbatim>\<open>index.html\<close>, and with the image file
  absent.\<close>

definition norefs_env :: env where
  "norefs_env =
     demo_env\<lparr>ReadFile := (\<lambda>p. if p = ''/site/index.html'' then Inr []
                                  else Inl ''no such file or directory'')\<rparr>"

definition missing_env :: env where
  "missing_env =
     demo_env\<lparr>Stat := (\<lambda>p. if p = ''/site/index.html'' \<or> p = ''/site/style.css''
                            then StatOK else StatNotExist)\<rparr>"

text \<open>The site of \<open>demo_env\<close> with a subdirectory that cannot be read.\<close>

definition unreadable_env :: env where
  "unreadable_env =
     demo_env\<lparr>ReadDir :=
       (\<lambda>p. if p = ''/site''
            then Entries [RegularFile ''index.html'',
                          Directory ''private'' (ReadError ''open /site/private: permission denied'')]
            else ReadError ''no such file or directory'')\<rparr>"

section \<open>Facts about the library functions\<close>

lemma HasPrefix_iff_prefix: "HasPrefix s p \<longleftrightarrow> prefix p s"
  unfolding HasPrefix_def prefix_def
  by (metis append_eq_conv_conj append_take_drop_id length_append le_add1)

lemma Index_lower: "- 1 \<le> Index s sub"
  by (induction s) (auto simp: Let_def)

lemma Index_upper: "Index s sub \<le> int (length s)"
  by (induction s) (auto simp: Let_def)

lemma Index_HasPrefix: "0 \<le> Index s sub \<Longrightarrow> HasPrefix (drop (nat (Index s sub)) s) sub"
proof (induction s)
  case Nil
  then show ?case by (auto simp: HasPrefix_def split: if_splits)
next
  case (Cons c cs)
  show ?case
  proof (cases "HasPrefix (c # cs) sub")
    case True
    then show ?thesis by simp
  next
    case False
    with Cons.prems have nn: "0 \<le> Index cs sub"
      by (auto simp: Let_def split: if_splits)
    with False have "Index (c # cs) sub = Index cs sub + 1"
      by (simp add: Let_def)
    moreover have "nat (Index cs sub + 1) = Suc (nat (Index cs sub))"
      using nn by simp
    ultimately show ?thesis using Cons.IH [OF nn] by simp
  qed
qed

lemma Index_first:
  "s = pre @ sub @ post \<Longrightarrow> 0 \<le> Index s sub \<and> Index s sub \<le> int (length pre)"
proof (induction pre arbitrary: s)
  case Nil
  then have "HasPrefix s sub" by (simp add: HasPrefix_iff_prefix)
  then show ?case by (cases s) (auto simp: HasPrefix_def)
next
  case (Cons a pre)
  then obtain s' where s: "s = a # s'" and s': "s' = pre @ sub @ post" by auto
  from Cons.IH [OF s'] show ?case
    unfolding s by (auto simp: Let_def)
qed

lemma Index_sublist: "0 \<le> Index s sub \<longleftrightarrow> sublist sub s"
proof
  assume nn: "0 \<le> Index s sub"
  from Index_HasPrefix [OF nn] have "prefix sub (drop (nat (Index s sub)) s)"
    by (simp add: HasPrefix_iff_prefix)
  then obtain post where "drop (nat (Index s sub)) s = sub @ post"
    by (auto simp: prefix_def)
  then have "s = take (nat (Index s sub)) s @ sub @ post"
    by (metis append_take_drop_id)
  then show "sublist sub s" unfolding sublist_def by blast
next
  assume "sublist sub s"
  then obtain pre post where "s = pre @ sub @ post" unfolding sublist_def by blast
  from Index_first [OF this] show "0 \<le> Index s sub" by simp
qed

lemma Index_truncated_at:
  assumes "0 \<le> Index r sub"
  shows "truncated_at sub r (drop (nat (Index r sub)) r)"
proof -
  let ?i = "nat (Index r sub)"
  have le: "?i \<le> length r" using Index_upper [of r sub] by simp
  have "r = take ?i r @ drop ?i r" by simp
  moreover have "prefix sub (drop ?i r)"
    using Index_HasPrefix [OF assms] by (simp add: HasPrefix_iff_prefix)
  moreover have "length (take ?i r) \<le> length pre'" if "r = pre' @ sub @ post'" for pre' post'
    using Index_first [OF that] le by (simp add: nat_le_iff)
  ultimately show ?thesis unfolding truncated_at_def by blast
qed

section \<open>The resolver on root-relative references\<close>

text \<open>
  Claim C4. For every reference that starts with \<^verbatim>\<open>/\<close>: when it contains
  \<^verbatim>\<open>/images/\<close> the resolver cuts it to begin at the first \<^verbatim>\<open>/images/\<close>
  and prepends the site root by string concatenation; when it contains no
  \<^verbatim>\<open>/images/\<close> but \<^verbatim>\<open>/_astro/\<close>, it cuts at the first
  \<^verbatim>\<open>/_astro/\<close> likewise; otherwise (a \<^verbatim>\<open>/favicon\<close> reference included)
  the reference is concatenated onto the root unchanged.
\<close>

theorem assetPath_root_relative:
  assumes "prefix ''/'' r"
  shows "(sublist ''/images/'' r \<longrightarrow>
            (\<exists>rel. truncated_at ''/images/'' r rel \<and> assetPath root r = root @ rel))
       \<and> (\<not> sublist ''/images/'' r \<and> sublist ''/_astro/'' r \<longrightarrow>
            (\<exists>rel. truncated_at ''/_astro/'' r rel \<and> assetPath root r = root @ rel))
       \<and> (\<not> sublist ''/images/'' r \<and> \<not> sublist ''/_astro/'' r \<longrightarrow>
            assetPath root r = root @ r)"
proof -
  have p: "HasPrefix r ''/''" using assms by (simp only: HasPrefix_iff_prefix)
  show ?thesis
    using p Index_truncated_at [of r "''/images/''"] Index_truncated_at [of r "''/_astro/''"]
    by (auto simp only: assetPath_def Let_def Index_sublist [symmetric] if_True if_False
          split: if_splits)
qed

theorem assetPath_root_relative_witness:
  "prefix ''/'' ''/demo/images/a.png'' \<and> sublist ''/images/'' ''/demo/images/a.png''
   \<and> (\<exists>rel. truncated_at ''/images/'' ''/demo/images/a.png'' rel
         \<and> assetPath ''/srv/dist'' ''/demo/images/a.png'' = ''/srv/dist'' @ rel)"
proof -
  have h1: "prefix ''/'' ''/demo/images/a.png''" by simp
  have h2: "sublist ''/images/'' ''/demo/images/a.png''"
    unfolding Index_sublist [symmetric] by (simp add: HasPrefix_def)
  from assetPath_root_relative [OF h1, of "''/srv/dist''"] h1 h2 show ?thesis by blast
qed

section \<open>The reference extractor on \<^verbatim>\<open>srcset\<close>\<close>

text \<open>
  Claim C6 (the code departs from it). The claim: every comma-separated candidate of a
  \<^verbatim>\<open>srcset\<close> contributes its first white-space-separated token, so
  \<^verbatim>\<open>a.webp, b.jpg 2x\<close> yields both \<^verbatim>\<open>a.webp\<close> and \<^verbatim>\<open>b.jpg\<close>.
  The code splits each candidate at the space character before it trims: the candidate
  after a comma and a space has an empty first piece and is dropped. Without the space
  both URLs are found.
\<close>

theorem srcset_space_after_comma:
  "extract_node (Node ElementNode ''source''
       [\<lparr>Namespace = [], Key = ''srcset'', Val = ''a.webp, b.jpg 2x''\<rparr>] []) [] = [''a.webp'']
   \<and> extract_node (Node ElementNode ''source''
       [\<lparr>Namespace = [], Key = ''srcset'', Val = ''a.webp,b.jpg 2x''\<rparr>] []) []
       = [''a.webp'', ''b.jpg'']"
  by code_simp

section \<open>The tree walker\<close>

lemma html_paths_simps:
  "html_paths [] = []"
  "html_paths (x # xs) = (if html_name (snd x) then fst x # html_paths xs else html_paths xs)"
  "html_paths (xs @ ys) = html_paths xs @ html_paths ys"
  by (simp_all add: html_paths_def)

lemma findHTMLFiles_walk:
  "readable l \<Longrightarrow> findHTMLFiles dir l = Inr (html_paths (nondir_entries dir l))"
  "readable_entries es \<Longrightarrow>
     findHTMLFiles_loop dir es files = Inr (files @ html_paths (nondir_entries_list dir es))"
  by (induction dir l and dir es files rule: findHTMLFiles_findHTMLFiles_loop.induct)
     (simp_all add: html_paths_simps html_name_def)

lemma findHTMLFiles_unreadable:
  "\<not> readable l \<Longrightarrow> \<exists>err. findHTMLFiles dir l = Inl err"
  "\<not> readable_entries es \<Longrightarrow> \<exists>err. findHTMLFiles_loop dir es files = Inl err"
  by (induction dir l and dir es files rule: findHTMLFiles_findHTMLFiles_loop.induct)
     (auto split: sum.splits)

text \<open>
  Claim C7, as the code has it. For every readable directory tree
  \<^verbatim>\<open>findHTMLFiles\<close> returns exactly the paths of the entries that are not
  directories (regular files, and symbolic links and other special files as well) and
  whose names end in \<^verbatim>\<open>.html\<close> or \<^verbatim>\<open>.htm\<close>, in one fixed order: the order
  of each directory's listing, with the files of a subdirectory standing at the place of
  the subdirectory's entry.
\<close>

theorem findHTMLFiles_listing_order:
  assumes "readable l"
  shows "findHTMLFiles dir l = Inr (html_paths (nondir_entries dir l))"
  using assms by (rule findHTMLFiles_walk(1))

theorem findHTMLFiles_listing_order_witness:
  "readable walk_tree
   \<and> findHTMLFiles ''/site'' walk_tree
       = Inr [''/site/a/x.html'', ''/site/b.html'', ''/site/c.htm'']"
proof -
  have r: "readable walk_tree" by (simp add: walk_tree_def)
  have "html_paths (nondir_entries ''/site'' walk_tree)
          = [''/site/a/x.html'', ''/site/b.html'', ''/site/c.htm'']"
    by (simp add: walk_tree_def html_paths_def html_name_def HasSuffix_def filepath_Join_def
          Clean_def HasPrefix_def Split_def)
  with findHTMLFiles_listing_order [OF r, of "''/site''"] r show ?thesis by simp
qed

text \<open>
  The claim as worded fails on \<open>walk_tree\<close>: the file found inside the subdirectory
  \<^verbatim>\<open>a\<close> comes before the direct child \<^verbatim>\<open>b.html\<close>, and the symbolic link
  \<^verbatim>\<open>c.htm\<close> is returned although it is not a regular file.
\<close>

theorem findHTMLFiles_children_first_counterexample:
  "findHTMLFiles ''/site'' walk_tree
     = Inr [''/site/a/x.html'', ''/site/b.html'', ''/site/c.htm'']
   \<and> children_first ''/site'' walk_tree = [''/site/b.html'', ''/site/a/x.html'']
   \<and> findHTMLFiles ''/site'' walk_tree \<noteq> Inr (children_first ''/site'' walk_tree)"
  by (simp add: walk_tree_def html_name_def HasSuffix_def filepath_Join_def Clean_def
        HasPrefix_def Split_def)

section \<open>The Assets check: totals and verdict\<close>

lemma assets_loop_eq:
  "assets_loop e d as (m, t) = (m @ filter (absent e d) as, t + int (length as))"
  by (induction as arbitrary: m t) (simp_all add: absent_def)

lemma files_loop_ok:
  "map (\<lambda>f. extractAssets e f d) files = map Inr refss \<Longrightarrow>
   files_loop e d files (m, t)
     = Inr (m @ filter (absent e d) (concat refss), t + int (length (concat refss)))"
proof (induction files arbitrary: refss m t)
  case Nil
  then show ?case by simp
next
  case (Cons f files)
  then obtain a rest where refss: "refss = a # rest" and a: "extractAssets e f d = Inr a"
    and rest: "map (\<lambda>f. extractAssets e f d) files = map Inr rest"
    by (cases refss) auto
  show ?case
    by (simp add: refss a assets_loop_eq Cons.IH [OF rest])
qed

lemma files_loop_Inr:
  "files_loop e d files st = Inr st' \<Longrightarrow>
   \<exists>refss. map (\<lambda>f. extractAssets e f d) files = map Inr refss"
proof (induction files arbitrary: st)
  case Nil
  then show ?case by simp
next
  case (Cons f files)
  then obtain a where a: "extractAssets e f d = Inr a"
    and rest: "files_loop e d files (assets_loop e d a st) = Inr st'"
    by (auto split: sum.splits)
  from Cons.IH [OF rest] obtain refss
    where "map (\<lambda>f. extractAssets e f d) files = map Inr refss" ..
  with a have "map (\<lambda>f. extractAssets e f d) (f # files) = map Inr (a # refss)" by simp
  then show ?case by blast
qed

lemma CheckAssets_status_cases:
  "Status (CheckAssets e d) = ''PASS'' \<or> Status (CheckAssets e d) = ''FAIL''"
  by (simp add: CheckAssets_def Let_def split: sum.splits prod.splits)

lemma CheckAssets_early_fail:
  "findHTMLFiles d (ReadDir e d) = Inl err \<Longrightarrow> Status (CheckAssets e d) = ''FAIL''"
  "findHTMLFiles d (ReadDir e d) = Inr [] \<Longrightarrow>
     CheckAssets e d = \<lparr>Status = ''FAIL'', Details = ''No HTML files found in dist directory'',
                         Total = 0, Missing = []\<rparr>"
  "findHTMLFiles d (ReadDir e d) = Inr files \<Longrightarrow> files_loop e d files ([], 0) = Inl x \<Longrightarrow>
     Status (CheckAssets e d) = ''FAIL''"
  by (simp_all add: CheckAssets_def Let_def split: prod.splits)

lemma CheckAssets_counted:
  assumes "findHTMLFiles d (ReadDir e d) = Inr files" and "files \<noteq> []"
    and "map (\<lambda>f. extractAssets e f d) files = map Inr refss"
  shows "Total (CheckAssets e d) = int (length (concat refss))"
    and "Missing (CheckAssets e d) = filter (absent e d) (concat refss)"
    and "Status (CheckAssets e d)
           = (if filter (absent e d) (concat refss) = [] then ''PASS'' else ''FAIL'')"
  using assms files_loop_ok [OF assms(3), of "[]" 0]
  by (simp_all add: CheckAssets_def Let_def)

text \<open>
  Claim C2, as the code has it. \<^verbatim>\<open>CheckAssets\<close> returns PASS if and only if the
  walk succeeds and finds at least one HTML document, every document is read and parsed,
  and no discovered reference is absent from the filesystem; in every other case it
  returns FAIL. The number of references does not enter: documents without any reference
  give PASS with a total of zero.
\<close>

theorem CheckAssets_pass_iff:
  "(Status (CheckAssets e d) = ''PASS'' \<longleftrightarrow>
      (\<exists>files refss. findHTMLFiles d (ReadDir e d) = Inr files \<and> files \<noteq> []
          \<and> map (\<lambda>f. extractAssets e f d) files = map Inr refss
          \<and> filter (absent e d) (concat refss) = []))
   \<and> (Status (CheckAssets e d) \<noteq> ''PASS'' \<longleftrightarrow> Status (CheckAssets e d) = ''FAIL'')"
proof -
  have "Status (CheckAssets e d) = ''PASS''"
    if "findHTMLFiles d (ReadDir e d) = Inr files" "files \<noteq> []"
      "map (\<lambda>f. extractAssets e f d) files = map Inr refss"
      "filter (absent e d) (concat refss) = []" for files refss
    using CheckAssets_counted(3) [OF that(1-3)] that(4) by simp
  moreover have "\<exists>files refss. findHTMLFiles d (ReadDir e d) = Inr files \<and> files \<noteq> []
          \<and> map (\<lambda>f. extractAssets e f d) files = map Inr refss
          \<and> filter (absent e d) (concat refss) = []"
    if pass: "Status (CheckAssets e d) = ''PASS''"
  proof (cases "findHTMLFiles d (ReadDir e d)")
    case (Inl err)
    from CheckAssets_early_fail(1) [OF this] pass show ?thesis by simp
  next
    case (Inr files)
    show ?thesis
    proof (cases "files = []")
      case True
      with Inr CheckAssets_early_fail(2) [of d e] pass show ?thesis by simp
    next
      case False
      show ?thesis
      proof (cases "files_loop e d files ([], 0)")
        case (Inl x)
        from CheckAssets_early_fail(3) [OF Inr this] pass show ?thesis by simp
      next
        case st: (Inr st)
        from files_loop_Inr [OF st] obtain refss
          where ok: "map (\<lambda>f. extractAssets e f d) files = map Inr refss" ..
        from CheckAssets_counted(3) [OF Inr False ok] pass
        have "filter (absent e d) (concat refss) = []" by (simp split: if_splits)
        with Inr False ok show ?thesis by blast
      qed
    qed
  qed
  ultimately show ?thesis using CheckAssets_status_cases [of e d] by auto
qed

lemma norefs_walk: "findHTMLFiles ''/site'' (ReadDir norefs_env ''/site'') = Inr [''/site/index.html'']"
  by code_simp

lemma norefs_extract:
  "map (\<lambda>f. extractAssets norefs_env f ''/site'') [''/site/index.html''] = map Inr [[]]"
  by code_simp

theorem CheckAssets_pass_iff_witness:
  "Status (CheckAssets norefs_env ''/site'') = ''PASS''"
proof -
  have "filter (absent norefs_env ''/site'') (concat [[]]) = []" by simp
  with norefs_walk norefs_extract
  have "\<exists>files refss. findHTMLFiles ''/site'' (ReadDir norefs_env ''/site'') = Inr files
          \<and> files \<noteq> []
          \<and> map (\<lambda>f. extractAssets norefs_env f ''/site'') files = map Inr refss
          \<and> filter (absent norefs_env ''/site'') (concat refss) = []"
    by blast
  with CheckAssets_pass_iff [of norefs_env "''/site''"] show ?thesis by blast
qed

text \<open>The claim as worded asks for FAIL when no reference is found; on the empty
  \<^verbatim>\<open>index.html\<close> of \<open>norefs_env\<close> the check passes with a total of zero.\<close>

theorem CheckAssets_zero_references_counterexample:
  "Status (CheckAssets norefs_env ''/site'') = ''PASS''
   \<and> Total (CheckAssets norefs_env ''/site'') = 0
   \<and> Missing (CheckAssets norefs_env ''/site'') = []"
  by code_simp

text \<open>
  Claim C5, as the code has it. When the walk succeeds and the extractor produces N
  reference strings over all documents, of which M are absent (each duplicate counted),
  \<^verbatim>\<open>CheckAssets\<close> returns \<^verbatim>\<open>Total == N\<close> and a \<^verbatim>\<open>Missing\<close> list
  of length M that holds the original reference strings in discovery order; the status
  is FAIL exactly when M is positive or no document was found, and PASS otherwise.
\<close>

theorem CheckAssets_totals:
  assumes "findHTMLFiles d (ReadDir e d) = Inr files"
    and "map (\<lambda>f. extractAssets e f d) files = map Inr refss"
  shows "Total (CheckAssets e d) = int (length (concat refss))
       \<and> Missing (CheckAssets e d) = filter (absent e d) (concat refss)
       \<and> length (Missing (CheckAssets e d)) \<le> length (concat refss)
       \<and> (Status (CheckAssets e d) = ''FAIL'' \<longleftrightarrow>
            files = [] \<or> Missing (CheckAssets e d) \<noteq> [])
       \<and> (Status (CheckAssets e d) = ''PASS'' \<longleftrightarrow>
            files \<noteq> [] \<and> Missing (CheckAssets e d) = [])"
proof (cases "files = []")
  case True
  with assms(2) have "refss = []" by simp
  with True CheckAssets_early_fail(2) [of d e] assms(1) show ?thesis by simp
next
  case False
  from CheckAssets_counted [OF assms(1) False assms(2)] False show ?thesis by simp
qed

lemma missing_walk:
  "findHTMLFiles ''/site'' (ReadDir missing_env ''/site'') = Inr [''/site/index.html'']"
  by code_simp

lemma missing_extract:
  "map (\<lambda>f. extractAssets missing_env f ''/site'') [''/site/index.html'']
     = map Inr [[''style.css'', ''/images/a.png'', ''/images/a.png'']]"
  by code_simp

theorem CheckAssets_totals_witness:
  "Total (CheckAssets missing_env ''/site'') = 3
   \<and> Missing (CheckAssets missing_env ''/site'') = [''/images/a.png'', ''/images/a.png'']
   \<and> Status (CheckAssets missing_env ''/site'') = ''FAIL''"
proof -
  have f: "filter (absent missing_env ''/site'') [''style.css'', ''/images/a.png'', ''/images/a.png'']
             = [''/images/a.png'', ''/images/a.png'']"
    by code_simp
  from CheckAssets_totals [OF missing_walk missing_extract] f show ?thesis by simp
qed

text \<open>The claim as worded gives FAIL for every M up to N; in \<open>demo_env\<close> three
  references are found, none is absent, and the check passes.\<close>

theorem CheckAssets_none_missing_counterexample:
  "findHTMLFiles ''/site'' (ReadDir demo_env ''/site'') = Inr [''/site/index.html'']
   \<and> extractAssets demo_env ''/site/index.html'' ''/site''
        = Inr [''style.css'', ''/images/a.png'', ''/images/a.png'']
   \<and> filter (absent demo_env ''/site'') [''style.css'', ''/images/a.png'', ''/images/a.png''] = []
   \<and> Status (CheckAssets demo_env ''/site'') = ''PASS''
   \<and> Status (CheckAssets demo_env ''/site'') \<noteq> ''FAIL''
   \<and> Total (CheckAssets demo_env ''/site'') = 3"
  by code_simp

section \<open>The Build check and a failing walk\<close>

lemma build_errors_Nil:
  "build_errors f = [] \<longleftrightarrow>
     hasHTML f \<and> hasHead f \<and> hasBody f \<and> hasTitle f \<and> hasDescription f \<and> hasOgTitle f"
  by (simp add: build_errors_def)

text \<open>
  Claim C9. When the recursive walk fails during the Build check while the root document
  is there and parses, the error is dropped: the result reports zero pages, it is the
  result the check gives on an empty listing (so the error text reaches no field), and
  its status is PASS exactly when the root document meets all six structural
  requirements.
\<close>

theorem CheckBuild_walk_error_discarded:
  assumes "Stat e (filepath_Join d ''index.html'') \<noteq> StatNotExist"
    and "ReadFile e (filepath_Join d ''index.html'') = Inr data"
    and "html_Parse e data = Inr doc"
    and "findHTMLFiles d (ReadDir e d) = Inl err"
  shows "Pages (CheckBuild e d) = 0
       \<and> (Status (CheckBuild e d) = ''PASS'' \<longleftrightarrow>
            hasHTML (check_node doc no_flags) \<and> hasHead (check_node doc no_flags)
            \<and> hasBody (check_node doc no_flags) \<and> hasTitle (check_node doc no_flags)
            \<and> hasDescription (check_node doc no_flags) \<and> hasOgTitle (check_node doc no_flags))
       \<and> CheckBuild e d = CheckBuild (e\<lparr>ReadDir := \<lambda>p. Entries []\<rparr>) d"
proof -
  let ?f = "check_node doc no_flags"
  have pages: "Pages (CheckBuild e d) = 0"
    using assms by (simp add: CheckBuild_def Let_def)
  have status: "Status (CheckBuild e d) = (if build_errors ?f = [] then ''PASS'' else ''FAIL'')"
    using assms by (simp add: CheckBuild_def Let_def no_flags_def)
  have same: "CheckBuild e d = CheckBuild (e\<lparr>ReadDir := \<lambda>p. Entries []\<rparr>) d"
    using assms by (simp add: CheckBuild_def Let_def)
  from pages status same show ?thesis
    by (simp add: build_errors_Nil [symmetric])
qed

theorem CheckBuild_walk_error_discarded_witness:
  "findHTMLFiles ''/site'' (ReadDir unreadable_env ''/site'')
     = Inl ''open /site/private: permission denied''
   \<and> Pages (CheckBuild unreadable_env ''/site'') = 0
   \<and> Status (CheckBuild unreadable_env ''/site'') = ''PASS''"
proof -
  have h1: "Stat unreadable_env (filepath_Join ''/site'' ''index.html'') \<noteq> StatNotExist"
    by code_simp
  have h2: "ReadFile unreadable_env (filepath_Join ''/site'' ''index.html'') = Inr demo_html"
    by code_simp
  have h3: "html_Parse unreadable_env demo_html = Inr demo_doc"
    by code_simp
  have h4: "findHTMLFiles ''/site'' (ReadDir unreadable_env ''/site'')
              = Inl ''open /site/private: permission denied''"
    by code_simp
  have flags: "hasHTML (check_node demo_doc no_flags) \<and> hasHead (check_node demo_doc no_flags)
            \<and> hasBody (check_node demo_doc no_flags) \<and> hasTitle (check_node demo_doc no_flags)
            \<and> hasDescription (check_node demo_doc no_flags)
            \<and> hasOgTitle (check_node demo_doc no_flags)"
    by code_simp
  from CheckBuild_walk_error_discarded [OF h1 h2 h3 h4] flags h4 show ?thesis by blast
qed

end
